theory Spec2Isabelle
  imports Main "HOL-Library.Word"
begin

section \<open>The macOS clock shim of \<^verbatim>\<open>cbits/foundation_time.c\<close>\<close>

text \<open>
  The C file supplies \<^verbatim>\<open>clock_getres\<close> and \<^verbatim>\<open>clock_gettime\<close> on a macOS that lacks
  them, on top of three Mach services. The two functions are embedded below branch by
  branch. What C leaves implicit is written out:
  \<^item> the file's static variable \<^verbatim>\<open>timebase\<close>, the port rights of the process and the
    sequence of Mach calls made so far form an explicit \<open>process\<close> state, passed in and
    returned;
  \<^item> the caller's \<^verbatim>\<open>struct timespec\<close> behind the pointer argument is passed in and
    returned;
  \<^item> the Mach services are not part of the file: their answers are a parameter
    (\<open>mach_kernel\<close>), and since the file never looks at a \<^verbatim>\<open>kern_return_t\<close>, a failing
    service (one that leaves its out-parameter alone) is one of the answers;
  \<^item> the file hands \<^verbatim>\<open>timebase\<close> to \<^verbatim>\<open>mach_timebase_info\<close> by value, without
    \<^verbatim>\<open>&\<close>, so the callee works on a copy: the kernels the file can run against are the
    ones of the form \<open>by_value k\<close>, which leave the variable as it is;
  \<^item> the locals \<^verbatim>\<open>cclock\<close> and \<^verbatim>\<open>mts\<close> are declared without initialiser, so their
    contents on entry are parameters of \<open>foundation_time_clock_gettime\<close>;
  \<^item> \<^verbatim>\<open>timebase.numer / timebase.denom\<close> with a zero denominator is undefined in C and
    traps on the Intel targets: it is the result \<open>Inl DivideByZero\<close>.
\<close>

subsection \<open>Data\<close>

text \<open>
  \<^verbatim>\<open>typedef enum { CLOCK_REALTIME, CLOCK_MONOTONIC, CLOCK_PROCESS_CPUTIME_ID,
  CLOCK_THREAD_CPUTIME_ID } clockid_t;\<close> The functions take the identifier as
  \<^verbatim>\<open>unsigned int\<close>, so any 32-bit value can arrive.
\<close>

type_synonym clockid = "32 word"

definition CLOCK_REALTIME :: clockid where
  "CLOCK_REALTIME = 0"

definition CLOCK_MONOTONIC :: clockid where
  "CLOCK_MONOTONIC = 1"

definition CLOCK_PROCESS_CPUTIME_ID :: clockid where
  "CLOCK_PROCESS_CPUTIME_ID = 2"

definition CLOCK_THREAD_CPUTIME_ID :: clockid where
  "CLOCK_THREAD_CPUTIME_ID = 3"

text \<open>
  \<^verbatim>\<open>struct timespec\<close> of the 64-bit macOS ABI: \<^verbatim>\<open>time_t tv_sec\<close> and \<^verbatim>\<open>long tv_nsec\<close>
  are both signed 64-bit.
\<close>

record timespec =
  tv_sec :: "64 word"
  tv_nsec :: "64 word"

text \<open>
  \<^verbatim>\<open>mach_timespec_t\<close>: \<^verbatim>\<open>unsigned int tv_sec; clock_res_t tv_nsec;\<close> where
  \<^verbatim>\<open>clock_res_t\<close> is \<^verbatim>\<open>int\<close>. The fields carry the prefix \<open>mts\<close>, the name of the
  local variable of this type.
\<close>

record mach_timespec =
  mts_tv_sec :: "32 word"
  mts_tv_nsec :: "32 word"

text \<open>\<^verbatim>\<open>mach_timebase_info_data_t\<close>: \<^verbatim>\<open>uint32_t numer; uint32_t denom;\<close>\<close>

record mach_timebase_info_data =
  numer :: "32 word"
  denom :: "32 word"

text \<open>The two clocks of \<^verbatim>\<open>host_get_clock_service\<close> the file asks for.\<close>

datatype clock_id = SYSTEM_CLOCK | CALENDAR_CLOCK

text \<open>\<^verbatim>\<open>clock_serv_t\<close> is a Mach port name, an \<^verbatim>\<open>unsigned int\<close>.\<close>

type_synonym clock_serv = "32 word"

subsection \<open>The Mach services\<close>

text \<open>
  The calls the file makes to the kernel, as they appear in the process's call sequence.
  \<open>HostGetClockService c r\<close> records the answer: \<open>Some p\<close> when the kernel handed out a
  right to port \<open>p\<close>, \<open>None\<close> when the call failed.
\<close>

datatype native_call =
    HostGetClockService clock_id "clock_serv option"
  | ClockGetTime clock_serv
  | MachPortDeallocate clock_serv
  | MachTimebaseInfo

text \<open>
  The answers of the kernel. \<open>clock_service_of\<close> and \<open>time_of\<close> give \<open>None\<close> for a call
  that fails and writes nothing. \<open>timebase_of\<close> is the content of the variable
  \<^verbatim>\<open>timebase\<close> after the statement \<^verbatim>\<open>mach_timebase_info(timebase)\<close>, given its content
  before. It is kept general so that a statement over all kernels also covers a callee
  that is given the address of the variable; for the statement as the file has it, with
  the structure passed by value, it is the identity (see \<open>by_value\<close> below).
\<close>

record mach_kernel =
  clock_service_of :: "clock_id \<Rightarrow> clock_serv option"
  time_of :: "clock_serv \<Rightarrow> mach_timespec option"
  timebase_of :: "mach_timebase_info_data \<Rightarrow> mach_timebase_info_data"

record process =
  timebase :: mach_timebase_info_data
  port_refs :: "clock_serv \<Rightarrow> nat"
  calls :: "native_call list"

text \<open>\<^verbatim>\<open>static mach_timebase_info_data_t timebase = {0,0};\<close> in a process that holds no
  clock port and has called nothing.\<close>

definition process_init :: process where
  "process_init = \<lparr>timebase = \<lparr>numer = 0, denom = 0\<rparr>, port_refs = (\<lambda>p. 0), calls = []\<rparr>"

text \<open>
  Modelled from the spec: the Mach calls are not part of the file. The spec has
  \<^verbatim>\<open>host_get_clock_service\<close> acquire a handle to a clock service and
  \<^verbatim>\<open>mach_port_deallocate\<close> release it; in Mach terms the process gains one user reference
  on the port name and loses one. A failing \<^verbatim>\<open>host_get_clock_service\<close> leaves
  \<^verbatim>\<open>cclock\<close> as it was.
\<close>

definition host_get_clock_service ::
  "mach_kernel \<Rightarrow> clock_id \<Rightarrow> clock_serv \<Rightarrow> process \<Rightarrow> clock_serv \<times> process" where
  "host_get_clock_service k c cclock s =
     (case clock_service_of k c of
        None \<Rightarrow> (cclock, s\<lparr>calls := calls s @ [HostGetClockService c None]\<rparr>)
      | Some p \<Rightarrow>
          (p, s\<lparr>port_refs := (port_refs s)(p := Suc (port_refs s p)),
                calls := calls s @ [HostGetClockService c (Some p)]\<rparr>))"

text \<open>
  Modelled from the spec: \<^verbatim>\<open>clock_get_time\<close> queries the service behind the handle for
  the current time as a native (seconds, nanoseconds) pair. A failing call leaves
  \<^verbatim>\<open>mts\<close> as it was.
\<close>

definition clock_get_time ::
  "mach_kernel \<Rightarrow> clock_serv \<Rightarrow> mach_timespec \<Rightarrow> process \<Rightarrow> mach_timespec \<times> process" where
  "clock_get_time k cclock mts s =
     (case time_of k cclock of None \<Rightarrow> mts | Some t \<Rightarrow> t,
      s\<lparr>calls := calls s @ [ClockGetTime cclock]\<rparr>)"

text \<open>
  Modelled from the spec: \<^verbatim>\<open>mach_port_deallocate\<close> releases one user reference on the
  name; on a name the process holds no right for, it fails and changes nothing.
\<close>

definition mach_port_deallocate :: "clock_serv \<Rightarrow> process \<Rightarrow> process" where
  "mach_port_deallocate cclock s =
     (if port_refs s cclock = 0 then s\<lparr>calls := calls s @ [MachPortDeallocate cclock]\<rparr>
      else s\<lparr>port_refs := (port_refs s)(cclock := port_refs s cclock - 1),
             calls := calls s @ [MachPortDeallocate cclock]\<rparr>)"

text \<open>
  Modelled from the spec: the timebase service returns the numerator/denominator ratio.
  The statement in the file is \<^verbatim>\<open>mach_timebase_info(timebase)\<close>: what it leaves in the
  variable is the kernel's \<open>timebase_of\<close>.
\<close>

definition mach_timebase_info :: "mach_kernel \<Rightarrow> process \<Rightarrow> process" where
  "mach_timebase_info k s =
     s\<lparr>timebase := timebase_of k (timebase s), calls := calls s @ [MachTimebaseInfo]\<rparr>"

text \<open>
  Line 31 of the file is \<^verbatim>\<open>if (timebase.denom == 0) mach_timebase_info(timebase);\<close>.
  The argument is the structure itself, not its address, and \<^verbatim>\<open>&timebase\<close> occurs
  nowhere in the file: whatever the callee writes, it writes into its own copy, and
  the static variable keeps its content. \<open>by_value k\<close> is the kernel \<open>k\<close> as the file
  sees it.
\<close>

definition by_value :: "mach_kernel \<Rightarrow> mach_kernel" where
  "by_value k = k\<lparr>timebase_of := (\<lambda>tb. tb)\<rparr>"

subsection \<open>The two functions of the file\<close>

datatype fault = DivideByZero

text \<open>
  \<^verbatim>\<open>int foundation_time_clock_getres(unsigned int clockid, struct timespec *timespec)\<close>.
  The \<^verbatim>\<open>switch\<close> has the cases \<^verbatim>\<open>CLOCK_MONOTONIC\<close> (which ends in \<^verbatim>\<open>break\<close>) and
  \<^verbatim>\<open>CLOCK_REALTIME\<close> (\<^verbatim>\<open>return -1\<close>) and no default; after the switch the function
  ends in \<^verbatim>\<open>return -1\<close>. The quotient of two \<^verbatim>\<open>uint32_t\<close> is converted to \<^verbatim>\<open>long\<close>
  by zero extension.
\<close>

definition foundation_time_clock_getres ::
  "mach_kernel \<Rightarrow> clockid \<Rightarrow> timespec \<Rightarrow> process \<Rightarrow> fault + (int \<times> timespec \<times> process)" where
  "foundation_time_clock_getres k clockid timespec s =
     (if clockid = CLOCK_MONOTONIC then
        (let s1 = (if denom (timebase s) = 0 then mach_timebase_info k s else s);
             timespec1 = timespec\<lparr>tv_sec := 0\<rparr>
         in if denom (timebase s1) = 0 then Inl DivideByZero
            else Inr (- 1,
                      timespec1\<lparr>tv_nsec := ucast (numer (timebase s1) div denom (timebase s1))\<rparr>,
                      s1))
      else if clockid = CLOCK_REALTIME then Inr (- 1, timespec, s)
      else Inr (- 1, timespec, s))"

text \<open>
  \<^verbatim>\<open>int foundation_time_clock_gettime(unsigned int clockid, struct timespec *timespec)\<close>.
  The block under \<^verbatim>\<open>#if 0\<close> is not compiled. The two live cases end in \<^verbatim>\<open>break\<close>; the
  default case is the expression statement \<^verbatim>\<open>-1;\<close>, which does nothing; after the switch
  the function ends in \<^verbatim>\<open>return 0\<close>. \<^verbatim>\<open>mts.tv_sec\<close> (unsigned) is zero-extended and
  \<^verbatim>\<open>mts.tv_nsec\<close> (signed) is sign-extended into the 64-bit fields.
\<close>

definition foundation_time_clock_gettime ::
  "mach_kernel \<Rightarrow> clock_serv \<Rightarrow> mach_timespec \<Rightarrow> clockid \<Rightarrow> timespec \<Rightarrow> process
     \<Rightarrow> int \<times> timespec \<times> process" where
  "foundation_time_clock_gettime k cclock mts clockid timespec s =
     (if clockid = CLOCK_MONOTONIC then
        (let (cclock1, s1) = host_get_clock_service k SYSTEM_CLOCK cclock s;
             (mts1, s2) = clock_get_time k cclock1 mts s1;
             s3 = mach_port_deallocate cclock1 s2
         in (0,
             timespec\<lparr>tv_sec := ucast (mts_tv_sec mts1), tv_nsec := scast (mts_tv_nsec mts1)\<rparr>,
             s3))
      else if clockid = CLOCK_REALTIME then
        (let (cclock1, s1) = host_get_clock_service k CALENDAR_CLOCK cclock s;
             (mts1, s2) = clock_get_time k cclock1 mts s1;
             s3 = mach_port_deallocate cclock1 s2
         in (0,
             timespec\<lparr>tv_sec := ucast (mts_tv_sec mts1), tv_nsec := scast (mts_tv_nsec mts1)\<rparr>,
             s3))
      else (0, timespec, s))"

subsection \<open>The lifetime of a process\<close>

text \<open>
  The variable \<^verbatim>\<open>timebase\<close> lives as long as the process, so what the file says about it
  is a statement about every sequence of calls the rest of the process may make. A call
  carries what the function receives: the kernel's answers at that moment, the contents
  of the uninitialised locals, the clock identifier and the caller's buffer.
\<close>

datatype api_call =
    Getres mach_kernel clockid timespec
  | Gettime mach_kernel clock_serv mach_timespec clockid timespec

fun step :: "api_call \<Rightarrow> process \<Rightarrow> fault + (int \<times> timespec \<times> process)" where
  "step (Getres k clockid ts) s = foundation_time_clock_getres k clockid ts s"
| "step (Gettime k cclock mts clockid ts) s =
     Inr (foundation_time_clock_gettime k cclock mts clockid ts s)"

text \<open>A run stops at the first trap; otherwise it yields the status and the buffer of
  every call, in order, and the final state.\<close>

fun run :: "api_call list \<Rightarrow> process \<Rightarrow> fault + ((int \<times> timespec) list \<times> process)" where
  "run [] s = Inr ([], s)"
| "run (c # cs) s =
     (case step c s of
        Inl f \<Rightarrow> Inl f
      | Inr (r, ts, s1) \<Rightarrow>
          (case run cs s1 of
             Inl f \<Rightarrow> Inl f
           | Inr (outs, s2) \<Rightarrow> Inr ((r, ts) # outs, s2)))"

text \<open>How often the process has asked the kernel for the timebase.\<close>

definition timebase_queries :: "process \<Rightarrow> nat" where
  "timebase_queries s = length (filter (\<lambda>c. c = MachTimebaseInfo) (calls s))"

fun is_resolution_query :: "api_call \<Rightarrow> bool" where
  "is_resolution_query (Getres k clockid ts) = (clockid = CLOCK_MONOTONIC)"
| "is_resolution_query (Gettime k cclock mts clockid ts) = False"

text \<open>A call as the file makes it, with the timebase structure passed by value.\<close>

fun by_value_call :: "api_call \<Rightarrow> api_call" where
  "by_value_call (Getres k clockid ts) = Getres (by_value k) clockid ts"
| "by_value_call (Gettime k cclock mts clockid ts) = Gettime (by_value k) cclock mts clockid ts"

subsection \<open>Example machines\<close>

text \<open>
  A machine whose tick is one nanosecond (ratio 1/1, the Intel Macs). Its system clock
  is behind port 2051 and reads 5 s 999999999 ns, its calendar clock is behind port
  2307 and reads 1700000000 s 123456789 ns. Its \<open>timebase_of\<close> is the one of a callee
  that is given the address of the variable.
\<close>

definition kernel_1_1 :: mach_kernel where
  "kernel_1_1 =
     \<lparr>clock_service_of =
        (\<lambda>c. case c of SYSTEM_CLOCK \<Rightarrow> Some 2051 | CALENDAR_CLOCK \<Rightarrow> Some 2307),
      time_of =
        (\<lambda>p. if p = 2051 then Some \<lparr>mts_tv_sec = 5, mts_tv_nsec = 999999999\<rparr>
             else if p = 2307 then Some \<lparr>mts_tv_sec = 1700000000, mts_tv_nsec = 123456789\<rparr>
             else None),
      timebase_of = (\<lambda>tb. \<lparr>numer = 1, denom = 1\<rparr>)\<rparr>"

text \<open>The same machine when the timebase call leaves the variable as it found it, which
  is what a callee that receives the structure by value does.\<close>

definition kernel_unpopulated :: mach_kernel where
  "kernel_unpopulated = kernel_1_1\<lparr>timebase_of := (\<lambda>tb. tb)\<rparr>"

section \<open>Properties\<close>

lemmas clockid_defs =
  CLOCK_REALTIME_def CLOCK_MONOTONIC_def CLOCK_PROCESS_CPUTIME_ID_def CLOCK_THREAD_CPUTIME_ID_def

lemmas mach_defs =
  host_get_clock_service_def clock_get_time_def mach_port_deallocate_def mach_timebase_info_def

lemmas kernel_defs = kernel_1_1_def kernel_unpopulated_def

subsection \<open>Conversions into the 64-bit fields\<close>

lemma sint_ucast_32_64: "sint (ucast (w :: 32 word) :: 64 word) = uint w"
proof -
  have "uint w < 2 ^ 32" using uint_bounded [of w] by simp
  then have hi: "uint w < 2 ^ 63" by simp
  have lo: "- (2 ^ 63) \<le> uint w"
    by (rule order_trans [of _ 0]) simp_all
  from lo hi have "signed_take_bit 63 (uint w) = uint w"
    by (rule signed_take_bit_int_eq_self)
  then show ?thesis
    by (simp add: signed_ucast_eq)
qed

lemma sint_scast_32_64: "sint (scast (w :: 32 word) :: 64 word) = sint w"
  by (simp add: sint_up_scast is_up)

subsection \<open>Status codes\<close>

text \<open>
  C4. \<open>getResolution(Realtime)\<close> fails on every call: whatever the kernel answers,
  whatever the caller's buffer holds and whatever state the process is in, the function
  returns normally with the status \<open>-1\<close>.
\<close>

theorem getres_realtime_fails:
  "\<exists>ts' s'. foundation_time_clock_getres k CLOCK_REALTIME ts s = Inr (- 1, ts', s')"
  by (simp add: foundation_time_clock_getres_def CLOCK_REALTIME_def CLOCK_MONOTONIC_def)

lemma gettime_always_returns_0:
  "fst (foundation_time_clock_gettime k cclock mts clockid ts s) = 0"
  by (simp add: foundation_time_clock_gettime_def mach_defs Let_def split: prod.splits)

lemma gettime_nanoseconds_in_range:
  assumes "clockid = CLOCK_MONOTONIC \<and> c = SYSTEM_CLOCK
           \<or> clockid = CLOCK_REALTIME \<and> c = CALENDAR_CLOCK"
    and "clock_service_of k c = Some p" and "time_of k p = Some t"
    and "0 \<le> sint (mts_tv_nsec t)" and "sint (mts_tv_nsec t) < 1000000000"
  shows "0 \<le> sint (tv_nsec (fst (snd (foundation_time_clock_gettime k cclock mts clockid ts s))))
       \<and> sint (tv_nsec (fst (snd (foundation_time_clock_gettime k cclock mts clockid ts s))))
           < 1000000000"
  using assms
  by (auto simp add: foundation_time_clock_gettime_def mach_defs clockid_defs sint_scast_32_64)

text \<open>
  C1. Stated: each supported pair, \<open>(getTime, Monotonic)\<close>, \<open>(getTime, Realtime)\<close> and
  \<open>(getResolution, Monotonic)\<close>, returns the success status 0 and writes nanoseconds in
  \<open>[0, 1000000000)\<close>. The code of \<open>getResolution\<close>: no call of
  \<open>foundation_time_clock_getres\<close> returns the status 0, for any clock kind, kernel,
  buffer or process state. The \<^verbatim>\<open>CLOCK_REALTIME\<close> case is \<^verbatim>\<open>return -1\<close>, the
  \<^verbatim>\<open>CLOCK_MONOTONIC\<close> case either divides by zero or leaves the switch by \<^verbatim>\<open>break\<close>,
  and after the switch the function ends in \<^verbatim>\<open>return -1\<close>.
\<close>

theorem getres_never_succeeds:
  "foundation_time_clock_getres k clockid ts s \<noteq> Inr (0, ts', s')"
  by (simp add: foundation_time_clock_getres_def Let_def)

text \<open>
  C2. Stated: for a clock kind outside Monotonic and Realtime both operations fail.
  The code of \<open>getTime\<close> at \<^verbatim>\<open>CLOCK_PROCESS_CPUTIME_ID\<close>: the default case is the
  statement \<^verbatim>\<open>-1;\<close> without \<^verbatim>\<open>return\<close>, so \<open>foundation_time_clock_gettime\<close> returns
  the success status 0, with the buffer and the process untouched.
\<close>

theorem gettime_unsupported_kind_returns_success:
  "foundation_time_clock_gettime k cclock mts CLOCK_PROCESS_CPUTIME_ID ts s = (0, ts, s)"
  by (simp add: foundation_time_clock_gettime_def clockid_defs)

text \<open>
  C9. When \<open>getResolution\<close> is called with Realtime, or with any kind other than
  Monotonic, it returns the status \<open>-1\<close> and gives back the caller's buffer exactly as
  it received it (and the process state likewise).
\<close>

theorem getres_failure_writes_nothing:
  assumes "clockid \<noteq> CLOCK_MONOTONIC"
  shows "foundation_time_clock_getres k clockid ts s = Inr (- 1, ts, s)"
  using assms by (simp add: foundation_time_clock_getres_def)

theorem getres_failure_writes_nothing_witness:
  "CLOCK_REALTIME \<noteq> CLOCK_MONOTONIC
   \<and> foundation_time_clock_getres kernel_1_1 CLOCK_REALTIME \<lparr>tv_sec = 9, tv_nsec = 9\<rparr>
        process_init = Inr (- 1, \<lparr>tv_sec = 9, tv_nsec = 9\<rparr>, process_init)
   \<and> CLOCK_THREAD_CPUTIME_ID \<noteq> CLOCK_MONOTONIC
   \<and> foundation_time_clock_getres kernel_1_1 CLOCK_THREAD_CPUTIME_ID
        \<lparr>tv_sec = 9, tv_nsec = 9\<rparr> process_init
      = Inr (- 1, \<lparr>tv_sec = 9, tv_nsec = 9\<rparr>, process_init)"
proof -
  have r: "CLOCK_REALTIME \<noteq> CLOCK_MONOTONIC"
    by (simp add: clockid_defs)
  have t: "CLOCK_THREAD_CPUTIME_ID \<noteq> CLOCK_MONOTONIC"
    by (simp add: clockid_defs)
  from r t getres_failure_writes_nothing [OF r] getres_failure_writes_nothing [OF t]
  show ?thesis by simp
qed

text \<open>
  C10. When \<open>getTime\<close> is called with a kind outside Monotonic and Realtime, the
  caller's buffer comes back with both fields as they were; no Mach call is made and the
  process state is unchanged as well.
\<close>

theorem gettime_unmatched_kind_frame:
  assumes "clockid \<noteq> CLOCK_MONOTONIC" and "clockid \<noteq> CLOCK_REALTIME"
  shows "\<exists>r. foundation_time_clock_gettime k cclock mts clockid ts s = (r, ts, s)"
  using assms by (simp add: foundation_time_clock_gettime_def)

theorem gettime_unmatched_kind_frame_witness:
  "CLOCK_THREAD_CPUTIME_ID \<noteq> CLOCK_MONOTONIC \<and> CLOCK_THREAD_CPUTIME_ID \<noteq> CLOCK_REALTIME
   \<and> (\<exists>r. foundation_time_clock_gettime kernel_1_1 0 \<lparr>mts_tv_sec = 0, mts_tv_nsec = 0\<rparr>
          CLOCK_THREAD_CPUTIME_ID \<lparr>tv_sec = 9, tv_nsec = 8\<rparr> process_init
        = (r, \<lparr>tv_sec = 9, tv_nsec = 8\<rparr>, process_init))"
proof -
  have m: "CLOCK_THREAD_CPUTIME_ID \<noteq> CLOCK_MONOTONIC"
    by (simp add: clockid_defs)
  have r: "CLOCK_THREAD_CPUTIME_ID \<noteq> CLOCK_REALTIME"
    by (simp add: clockid_defs)
  from m r gettime_unmatched_kind_frame [OF m r] show ?thesis by blast
qed

subsection \<open>The resolution of the monotonic clock\<close>

text \<open>
  C3. Stated: \<open>getResolution(Monotonic)\<close> writes seconds 0 and nanoseconds
  numerator / denominator of the cached ratio, rounded down, and 0 s 1 ns on a machine
  whose ratio is 1/1. The code in a fresh process, on any machine: the variable holds
  the sentinel 0/0, the timebase call receives it by value and leaves it 0/0, and the
  division \<^verbatim>\<open>timebase.numer / timebase.denom\<close> divides by zero. No timestamp is
  reported.
\<close>

theorem getres_monotonic_divides_by_zero:
  "foundation_time_clock_getres (by_value k) CLOCK_MONOTONIC ts process_init
     = Inl DivideByZero"
  by (simp add: foundation_time_clock_getres_def mach_timebase_info_def by_value_def
      process_init_def)

text \<open>
  C8. In \<open>getResolution(Monotonic)\<close> the division is carried out only on a non-zero
  denominator. If the denominator is non-zero on entry, or the lazy query makes it so,
  the call returns and the denominator it divided by is non-zero. If the denominator is
  zero on entry and the query leaves it zero (the 0/0 sentinel stays in place), the call
  divides by zero.
\<close>

theorem getres_division_guard:
  "(denom (timebase s) \<noteq> 0 \<or> denom (timebase_of k (timebase s)) \<noteq> 0 \<longrightarrow>
      (\<exists>r ts' s'. foundation_time_clock_getres k CLOCK_MONOTONIC ts s = Inr (r, ts', s')
          \<and> denom (timebase s') \<noteq> 0))
   \<and> (denom (timebase s) = 0 \<and> denom (timebase_of k (timebase s)) = 0 \<longrightarrow>
        foundation_time_clock_getres k CLOCK_MONOTONIC ts s = Inl DivideByZero)"
  by (simp add: foundation_time_clock_getres_def mach_timebase_info_def Let_def)

theorem getres_division_guard_witness:
  "denom (timebase_of kernel_1_1 (timebase process_init)) \<noteq> 0
   \<and> (\<exists>r ts' s'. foundation_time_clock_getres kernel_1_1 CLOCK_MONOTONIC
          \<lparr>tv_sec = 9, tv_nsec = 9\<rparr> process_init = Inr (r, ts', s')
        \<and> denom (timebase s') \<noteq> 0)
   \<and> denom (timebase process_init) = 0
   \<and> denom (timebase_of kernel_unpopulated (timebase process_init)) = 0
   \<and> foundation_time_clock_getres kernel_unpopulated CLOCK_MONOTONIC
        \<lparr>tv_sec = 9, tv_nsec = 9\<rparr> process_init = Inl DivideByZero"
proof -
  have a: "denom (timebase_of kernel_1_1 (timebase process_init)) \<noteq> 0"
    by (simp add: kernel_defs)
  have b: "denom (timebase process_init) = 0"
    by (simp add: process_init_def)
  have c: "denom (timebase_of kernel_unpopulated (timebase process_init)) = 0"
    by (simp add: kernel_defs process_init_def)
  from a b c
    getres_division_guard [of process_init kernel_1_1 "\<lparr>tv_sec = 9, tv_nsec = 9\<rparr>"]
    getres_division_guard [of process_init kernel_unpopulated "\<lparr>tv_sec = 9, tv_nsec = 9\<rparr>"]
  show ?thesis by blast
qed

subsection \<open>Reading a clock\<close>

lemma gettime_calls:
  "calls (snd (snd (foundation_time_clock_gettime k cclock mts clockid ts s))) =
     calls s @
     (if clockid = CLOCK_MONOTONIC \<or> clockid = CLOCK_REALTIME then
        (let c = (if clockid = CLOCK_MONOTONIC then SYSTEM_CLOCK else CALENDAR_CLOCK);
             p = (case clock_service_of k c of None \<Rightarrow> cclock | Some q \<Rightarrow> q)
         in [HostGetClockService c (clock_service_of k c), ClockGetTime p, MachPortDeallocate p])
      else [])"
  by (auto simp add: foundation_time_clock_gettime_def mach_defs clockid_defs Let_def
      split: option.splits)

lemma gettime_timebase:
  "timebase (snd (snd (foundation_time_clock_gettime k cclock mts clockid ts s))) = timebase s"
  by (auto simp add: foundation_time_clock_gettime_def mach_defs Let_def split: option.splits)

text \<open>
  C5. \<open>getTime(Monotonic)\<close> asks the kernel for the system clock service and
  \<open>getTime(Realtime)\<close> for the calendar clock service; when the kernel hands out the
  service port and the port answers the time query, the seconds and nanoseconds of that
  answer are the values in the caller's buffer (seconds zero-extended, nanoseconds
  sign-extended to 64 bits, so the numbers are the same), the status is 0, and the Mach
  calls made are exactly acquire, query, release on that port.
\<close>

theorem gettime_native_pair_unmodified:
  assumes "clockid = CLOCK_MONOTONIC \<and> c = SYSTEM_CLOCK
           \<or> clockid = CLOCK_REALTIME \<and> c = CALENDAR_CLOCK"
      and "clock_service_of k c = Some p" and "time_of k p = Some t"
  shows "\<exists>ts' s'. foundation_time_clock_gettime k cclock mts clockid ts s = (0, ts', s')
        \<and> sint (tv_sec ts') = uint (mts_tv_sec t) \<and> sint (tv_nsec ts') = sint (mts_tv_nsec t)
        \<and> calls s' =
            calls s @ [HostGetClockService c (Some p), ClockGetTime p, MachPortDeallocate p]"
  using assms
  by (auto simp add: foundation_time_clock_gettime_def mach_defs clockid_defs
      sint_ucast_32_64 sint_scast_32_64)

theorem gettime_native_pair_unmodified_witness:
  "clock_service_of kernel_1_1 SYSTEM_CLOCK = Some 2051
   \<and> time_of kernel_1_1 2051 = Some \<lparr>mts_tv_sec = 5, mts_tv_nsec = 999999999\<rparr>
   \<and> (\<exists>ts' s'. foundation_time_clock_gettime kernel_1_1 0 \<lparr>mts_tv_sec = 0, mts_tv_nsec = 0\<rparr>
          CLOCK_MONOTONIC \<lparr>tv_sec = 9, tv_nsec = 9\<rparr> process_init = (0, ts', s')
        \<and> sint (tv_sec ts') = 5 \<and> sint (tv_nsec ts') = 999999999)
   \<and> clock_service_of kernel_1_1 CALENDAR_CLOCK = Some 2307
   \<and> time_of kernel_1_1 2307 = Some \<lparr>mts_tv_sec = 1700000000, mts_tv_nsec = 123456789\<rparr>
   \<and> (\<exists>ts' s'. foundation_time_clock_gettime kernel_1_1 0 \<lparr>mts_tv_sec = 0, mts_tv_nsec = 0\<rparr>
          CLOCK_REALTIME \<lparr>tv_sec = 9, tv_nsec = 9\<rparr> process_init = (0, ts', s')
        \<and> sint (tv_sec ts') = 1700000000 \<and> sint (tv_nsec ts') = 123456789)"
proof -
  have a: "clock_service_of kernel_1_1 SYSTEM_CLOCK = Some 2051"
    and b: "time_of kernel_1_1 2051 = Some \<lparr>mts_tv_sec = 5, mts_tv_nsec = 999999999\<rparr>"
    and c: "clock_service_of kernel_1_1 CALENDAR_CLOCK = Some 2307"
    and d: "time_of kernel_1_1 2307 = Some \<lparr>mts_tv_sec = 1700000000, mts_tv_nsec = 123456789\<rparr>"
    by (simp_all add: kernel_defs)
  have m: "CLOCK_MONOTONIC = CLOCK_MONOTONIC \<and> SYSTEM_CLOCK = SYSTEM_CLOCK
           \<or> CLOCK_MONOTONIC = CLOCK_REALTIME \<and> SYSTEM_CLOCK = CALENDAR_CLOCK"
    by simp
  have r: "CLOCK_REALTIME = CLOCK_MONOTONIC \<and> CALENDAR_CLOCK = SYSTEM_CLOCK
           \<or> CLOCK_REALTIME = CLOCK_REALTIME \<and> CALENDAR_CLOCK = CALENDAR_CLOCK"
    by simp
  from gettime_native_pair_unmodified [OF m a b, of 0 "\<lparr>mts_tv_sec = 0, mts_tv_nsec = 0\<rparr>"
      "\<lparr>tv_sec = 9, tv_nsec = 9\<rparr>" process_init]
  have e: "\<exists>ts' s'. foundation_time_clock_gettime kernel_1_1 0 \<lparr>mts_tv_sec = 0, mts_tv_nsec = 0\<rparr>
          CLOCK_MONOTONIC \<lparr>tv_sec = 9, tv_nsec = 9\<rparr> process_init = (0, ts', s')
        \<and> sint (tv_sec ts') = 5 \<and> sint (tv_nsec ts') = 999999999"
    by auto
  from gettime_native_pair_unmodified [OF r c d, of 0 "\<lparr>mts_tv_sec = 0, mts_tv_nsec = 0\<rparr>"
      "\<lparr>tv_sec = 9, tv_nsec = 9\<rparr>" process_init]
  have f: "\<exists>ts' s'. foundation_time_clock_gettime kernel_1_1 0 \<lparr>mts_tv_sec = 0, mts_tv_nsec = 0\<rparr>
          CLOCK_REALTIME \<lparr>tv_sec = 9, tv_nsec = 9\<rparr> process_init = (0, ts', s')
        \<and> sint (tv_sec ts') = 1700000000 \<and> sint (tv_nsec ts') = 123456789"
    by auto
  from a b c d e f show ?thesis by blast
qed

text \<open>
  C7. Whenever a call of \<open>getTime\<close> acquires a clock-service port (the kernel answers
  \<^verbatim>\<open>host_get_clock_service\<close> with a port), the last Mach call the function makes before
  it returns is the release of that very port, and on return the process holds exactly the
  port rights it held on entry. This covers both clock kinds and also the path on which
  the time query fails.
\<close>

theorem gettime_releases_handle:
  "\<exists>new. calls (snd (snd (foundation_time_clock_gettime k cclock mts clockid ts s)))
           = calls s @ new
     \<and> (\<forall>c p. HostGetClockService c (Some p) \<in> set new \<longrightarrow>
           last new = MachPortDeallocate p
         \<and> port_refs (snd (snd (foundation_time_clock_gettime k cclock mts clockid ts s)))
             = port_refs s)"
  by (auto simp add: foundation_time_clock_gettime_def mach_defs clockid_defs Let_def
      split: option.splits)

theorem gettime_releases_handle_witness:
  "calls (snd (snd (foundation_time_clock_gettime kernel_1_1 0
       \<lparr>mts_tv_sec = 0, mts_tv_nsec = 0\<rparr> CLOCK_REALTIME \<lparr>tv_sec = 9, tv_nsec = 9\<rparr>
       process_init)))
     = [HostGetClockService CALENDAR_CLOCK (Some 2307), ClockGetTime 2307,
        MachPortDeallocate 2307]
   \<and> port_refs (snd (snd (foundation_time_clock_gettime kernel_1_1 0
       \<lparr>mts_tv_sec = 0, mts_tv_nsec = 0\<rparr> CLOCK_REALTIME \<lparr>tv_sec = 9, tv_nsec = 9\<rparr>
       process_init))) = port_refs process_init"
proof -
  let ?s' = "snd (snd (foundation_time_clock_gettime kernel_1_1 0
       \<lparr>mts_tv_sec = 0, mts_tv_nsec = 0\<rparr> CLOCK_REALTIME \<lparr>tv_sec = 9, tv_nsec = 9\<rparr>
       process_init))"
  have cs: "calls ?s' = [HostGetClockService CALENDAR_CLOCK (Some 2307), ClockGetTime 2307,
        MachPortDeallocate 2307]"
    by (simp add: gettime_calls clockid_defs kernel_defs process_init_def)
  from gettime_releases_handle [of kernel_1_1 0 "\<lparr>mts_tv_sec = 0, mts_tv_nsec = 0\<rparr>"
      CLOCK_REALTIME "\<lparr>tv_sec = 9, tv_nsec = 9\<rparr>" process_init]
  obtain new where n: "calls ?s' = calls process_init @ new"
    and rel: "\<forall>c p. HostGetClockService c (Some p) \<in> set new \<longrightarrow>
           last new = MachPortDeallocate p \<and> port_refs ?s' = port_refs process_init"
    by blast
  from n cs have "new = [HostGetClockService CALENDAR_CLOCK (Some 2307), ClockGetTime 2307,
        MachPortDeallocate 2307]"
    by (simp add: process_init_def)
  then have "HostGetClockService CALENDAR_CLOCK (Some 2307) \<in> set new"
    by simp
  with rel have "port_refs ?s' = port_refs process_init"
    by blast
  with cs show ?thesis by simp
qed

subsection \<open>The timebase over the lifetime of the process\<close>

lemma gettime_queries:
  "timebase_queries (snd (snd (foundation_time_clock_gettime k cclock mts clockid ts s))) =
     timebase_queries s"
  by (simp add: timebase_queries_def gettime_calls Let_def)

lemma step_by_value:
  assumes "timebase s = \<lparr>numer = 0, denom = 0\<rparr>" and "timebase_queries s = 0"
  shows "case step (by_value_call c) s of
           Inl f \<Rightarrow> is_resolution_query c
         | Inr (r, ts', s') \<Rightarrow>
             \<not> is_resolution_query c \<and> timebase s' = \<lparr>numer = 0, denom = 0\<rparr>
             \<and> timebase_queries s' = 0"
proof (cases c)
  case (Getres k clockid ts)
  with assms show ?thesis
    by (simp add: foundation_time_clock_getres_def mach_timebase_info_def by_value_def)
next
  case (Gettime k cclock mts clockid ts)
  obtain r ts' s' where
    g: "foundation_time_clock_gettime (by_value k) cclock mts clockid ts s = (r, ts', s')"
    by (cases "foundation_time_clock_gettime (by_value k) cclock mts clockid ts s")
  with assms gettime_timebase [of "by_value k" cclock mts clockid ts s]
    gettime_queries [of "by_value k" cclock mts clockid ts s]
  have "timebase s' = \<lparr>numer = 0, denom = 0\<rparr>" and "timebase_queries s' = 0"
    by simp_all
  with Gettime g show ?thesis by simp
qed

lemma run_by_value:
  assumes "timebase s = \<lparr>numer = 0, denom = 0\<rparr>" and "timebase_queries s = 0"
  shows "case run (map by_value_call cs) s of
           Inl f \<Rightarrow> list_ex is_resolution_query cs
         | Inr (outs, s') \<Rightarrow>
             \<not> list_ex is_resolution_query cs \<and> timebase s' = \<lparr>numer = 0, denom = 0\<rparr>
             \<and> timebase_queries s' = 0"
  using assms
proof (induction cs arbitrary: s)
  case Nil
  then show ?case by simp
next
  case (Cons c cs)
  show ?case
  proof (cases "step (by_value_call c) s")
    case (Inl f)
    with step_by_value [OF Cons.prems, of c] show ?thesis by simp
  next
    case (Inr x)
    obtain r ts' s1 where x: "x = (r, ts', s1)" by (cases x)
    from Inr x step_by_value [OF Cons.prems, of c]
    have nq: "\<not> is_resolution_query c" and tb: "timebase s1 = \<lparr>numer = 0, denom = 0\<rparr>"
      and q: "timebase_queries s1 = 0"
      by simp_all
    from Cons.IH [OF tb q] Inr x nq show ?thesis
      by (simp split: sum.splits prod.splits)
  qed
qed

text \<open>
  C6. Stated: the ratio starts as the 0/0 sentinel, is fetched from the kernel by the
  first \<open>getResolution(Monotonic)\<close> call and kept, so that every later such call
  returns the same timestamp. The code, with the structure passed by value, over every
  sequence of calls a fresh process may make: the sequence runs to its end exactly when
  it contains no \<open>getResolution(Monotonic)\<close> call, and then the variable still holds the
  sentinel and the kernel was never asked; a sequence that contains such a call ends in
  a division by zero. The ratio is never cached and no resolution is ever returned; two
  resolution queries in a row stop at the first.
\<close>

theorem timebase_never_cached:
  "(case run (map by_value_call cs) process_init of
      Inl f \<Rightarrow> list_ex is_resolution_query cs
    | Inr (outs, s) \<Rightarrow>
        \<not> list_ex is_resolution_query cs \<and> timebase s = \<lparr>numer = 0, denom = 0\<rparr>
        \<and> timebase_queries s = 0)
   \<and> run [Getres (by_value k) CLOCK_MONOTONIC ts1, Getres (by_value k) CLOCK_MONOTONIC ts2]
         process_init = Inl DivideByZero"
proof -
  have a: "timebase process_init = \<lparr>numer = 0, denom = 0\<rparr>"
    and b: "timebase_queries process_init = 0"
    by (simp_all add: process_init_def timebase_queries_def)
  have c: "run [Getres (by_value k) CLOCK_MONOTONIC ts1, Getres (by_value k) CLOCK_MONOTONIC ts2]
         process_init = Inl DivideByZero"
    by (simp add: foundation_time_clock_getres_def mach_timebase_info_def by_value_def
        process_init_def)
  from run_by_value [OF a b, of cs] c show ?thesis by simp
qed

end
